theory Spec2Isabelle
  imports Complex_Main "HOL-Library.Sublist"
begin

section \<open>LedgerLite: the derived-state layer of \<^verbatim>\<open>src/App.tsx\<close>\<close>

text \<open>
  The component \<^verbatim>\<open>App\<close> keeps two collections (transactions and saving goals) and a
  handful of form fields in React state, talks to a remote table store, and derives
  totals, a balance, goal progress, a filtered view and a CSV text from the
  collections. Each handler and each derived value is embedded below as a function on
  an explicit state record. The remote store, the clock and the platform's string
  conversions are parameters of the functions that use them.
\<close>

subsection \<open>Numbers\<close>



datatype jsnum = Finite real | PosInfinity | NegInfinity | NaN

text \<open>\<^verbatim>\<open>a / b\<close>\<close>

fun js_div :: "jsnum \<Rightarrow> jsnum \<Rightarrow> jsnum" where
  "js_div NaN b = NaN"
| "js_div a NaN = NaN"
| "js_div (Finite a) (Finite b) =
     (if b = 0 then (if a = 0 then NaN else if 0 < a then PosInfinity else NegInfinity)
      else Finite (a / b))"
| "js_div (Finite a) PosInfinity = Finite 0"
| "js_div (Finite a) NegInfinity = Finite 0"
| "js_div PosInfinity (Finite b) = (if 0 \<le> b then PosInfinity else NegInfinity)"
| "js_div NegInfinity (Finite b) = (if 0 \<le> b then NegInfinity else PosInfinity)"
| "js_div a b = NaN"

text \<open>\<^verbatim>\<open>a * b\<close>\<close>

fun js_mul :: "jsnum \<Rightarrow> jsnum \<Rightarrow> jsnum" where
  "js_mul NaN b = NaN"
| "js_mul a NaN = NaN"
| "js_mul (Finite a) (Finite b) = Finite (a * b)"
| "js_mul (Finite a) PosInfinity =
     (if a = 0 then NaN else if 0 < a then PosInfinity else NegInfinity)"
| "js_mul (Finite a) NegInfinity =
     (if a = 0 then NaN else if 0 < a then NegInfinity else PosInfinity)"
| "js_mul PosInfinity (Finite b) =
     (if b = 0 then NaN else if 0 < b then PosInfinity else NegInfinity)"
| "js_mul NegInfinity (Finite b) =
     (if b = 0 then NaN else if 0 < b then NegInfinity else PosInfinity)"
| "js_mul PosInfinity PosInfinity = PosInfinity"
| "js_mul NegInfinity NegInfinity = PosInfinity"
| "js_mul a b = NegInfinity"

text \<open>\<^verbatim>\<open>a < b\<close> and \<^verbatim>\<open>a >= b\<close>: every comparison with \<^verbatim>\<open>NaN\<close> is false.\<close>

fun js_lt :: "jsnum \<Rightarrow> jsnum \<Rightarrow> bool" where
  "js_lt NaN b = False"
| "js_lt a NaN = False"
| "js_lt (Finite a) (Finite b) = (a < b)"
| "js_lt a PosInfinity = (a \<noteq> PosInfinity)"
| "js_lt NegInfinity b = (b \<noteq> NegInfinity)"
| "js_lt a b = False"

fun js_ge :: "jsnum \<Rightarrow> jsnum \<Rightarrow> bool" where
  "js_ge NaN b = False"
| "js_ge a NaN = False"
| "js_ge a b = (\<not> js_lt a b)"

text \<open>\<^verbatim>\<open>Math.min(a, b)\<close>: \<^verbatim>\<open>NaN\<close> if either argument is.\<close>

fun js_min :: "jsnum \<Rightarrow> jsnum \<Rightarrow> jsnum" where
  "js_min NaN b = NaN"
| "js_min a NaN = NaN"
| "js_min a b = (if js_lt b a then b else a)"

subsection \<open>Rows, payloads and responses\<close>

text \<open>
  Timestamps are milliseconds since the epoch; on the wire they are ISO-8601 strings,
  and the store orders by the instant they denote.
\<close>

type_synonym timestamp = int

datatype txn_type = Income | Expense

text \<open>
  \<^verbatim>\<open>interface Transaction\<close>, as a row read from the store (the store assigns
  \<^verbatim>\<open>id\<close> and \<^verbatim>\<open>created_at\<close>).
\<close>

record transaction =
  t_id :: string
  t_description :: string
  t_amount :: real
  t_category :: string
  t_date :: timestamp
  t_type :: txn_type
  t_created_at :: timestamp

text \<open>\<^verbatim>\<open>interface SavingGoal\<close>, as a row read from the store.\<close>

record saving_goal =
  g_id :: string
  g_name :: string
  g_target_amount :: real
  g_created_at :: timestamp

text \<open>The object \<^verbatim>\<open>newTransaction\<close> built by \<^verbatim>\<open>addTransaction\<close>.\<close>

record new_transaction =
  nt_description :: string
  nt_amount :: jsnum
  nt_category :: string
  nt_date :: timestamp
  nt_type :: txn_type

text \<open>The object \<^verbatim>\<open>newGoal\<close> built by \<^verbatim>\<open>addGoal\<close>.\<close>

record new_goal =
  ng_name :: string
  ng_target_amount :: jsnum

text \<open>
  The store answers every call with \<^verbatim>\<open>{ data, error }\<close>: either \<^verbatim>\<open>error\<close> is set,
  or \<^verbatim>\<open>data\<close> is what the call returns.
  \<^item> A select returns \<^verbatim>\<open>data\<close> as an array or null: \<open>'row list option\<close>.
  \<^item> An insert of one row followed by \<^verbatim>\<open>.select()\<close> returns null or the array of the
    inserted rows, of which the handlers read element 0: \<open>('row \<times> 'row list) option\<close>,
    element 0 and the rest. An empty array is outside this type.
  \<^item> A delete is only asked for its \<^verbatim>\<open>error\<close>: \<open>unit\<close>.
\<close>

datatype 'a response = Failed string | Succeeded 'a

type_synonym 'row select_response = "'row list option response"
type_synonym 'row insert_response = "('row \<times> 'row list) option response"
type_synonym delete_response = "unit response"

subsection \<open>The state of the component\<close>

record app_state =
  transactions :: "transaction list"
  goals :: "saving_goal list"
  isLoading :: bool
  description :: string
  amount :: string
  category :: string
  type :: txn_type
  goalName :: string
  goalTarget :: string
  searchTerm :: string

text \<open>The initial values of the \<^verbatim>\<open>useState\<close> calls.\<close>

definition initial_state :: app_state where
  "initial_state =
     \<lparr>transactions = [], goals = [], isLoading = True,
      description = [], amount = [], category = ''Food'', type = Expense,
      goalName = [], goalTarget = [], searchTerm = []\<rparr>"

subsection \<open>Aggregation\<close>

record totals_acc =
  income :: real
  expense :: real





subsection \<open>Goal progress\<close>

text \<open>
  Inside \<^verbatim>\<open>goals.map\<close>:
  \<^verbatim>\<open>const progress = Math.min((balance / goal.target_amount) * 100, 100)\<close> and
  \<^verbatim>\<open>const isAchieved = progress >= 100\<close>. The division is not guarded.
\<close>

definition progress :: "real \<Rightarrow> saving_goal \<Rightarrow> jsnum" where
  "progress bal goal =
     js_min (js_mul (js_div (Finite bal) (Finite (g_target_amount goal))) (Finite 100))
       (Finite 100)"

definition isAchieved :: "real \<Rightarrow> saving_goal \<Rightarrow> bool" where
  "isAchieved bal goal = js_ge (progress bal goal) (Finite 100)"

text \<open>The number put into the bar's width: \<^verbatim>\<open>progress < 0 ? 0 : progress\<close>.\<close>

definition progress_width :: "real \<Rightarrow> saving_goal \<Rightarrow> jsnum" where
  "progress_width bal goal =
     (if js_lt (progress bal goal) (Finite 0) then Finite 0 else progress bal goal)"

subsection \<open>Search filter\<close>

text \<open>
  A string is a list of characters; text outside ASCII is the list of the bytes of its
  UTF-8 form, in which one well-formed text occurs inside another exactly where its
  sequence of code points does. \<^verbatim>\<open>String.prototype.toLowerCase\<close> is the platform's
  Unicode case mapping, which is not a map over single characters: it is the
  parameter \<open>toLowerCase\<close> of the filter.
\<close>




subsection \<open>CSV export\<close>

text \<open>\<^verbatim>\<open>Array.prototype.join\<close> on an array of strings.\<close>

fun join :: "string \<Rightarrow> string list \<Rightarrow> string" where
  "join sep [] = []"
| "join sep [x] = x"
| "join sep (x # y # ys) = x @ sep @ join sep (y # ys)"

definition headers :: "string list" where
  "headers = [''Date'', ''Description'', ''Category'', ''Type'', ''Amount'']"

text \<open>The string a \<^verbatim>\<open>type\<close> field holds.\<close>

fun type_string :: "txn_type \<Rightarrow> string" where
  "type_string Income = ''income''"
| "type_string Expense = ''expense''"

text \<open>
  \<^verbatim>\<open>csvData\<close> and \<^verbatim>\<open>csvContent\<close>. The two conversions of the platform are
  parameters: \<open>toLocaleDateString\<close> stands for
  \<^verbatim>\<open>new Date(t.date).toLocaleDateString()\<close>, and \<open>numberToString\<close> for the
  conversion \<^verbatim>\<open>join\<close> applies to the number \<^verbatim>\<open>t.amount\<close>.
\<close>

definition csvData ::
  "(timestamp \<Rightarrow> string) \<Rightarrow> (real \<Rightarrow> string) \<Rightarrow> transaction list \<Rightarrow> string list list" where
  "csvData toLocaleDateString numberToString ts =
     map (\<lambda>t. [toLocaleDateString (t_date t), t_description t, t_category t,
               type_string (t_type t), numberToString (t_amount t)]) ts"

definition csvContent ::
  "(timestamp \<Rightarrow> string) \<Rightarrow> (real \<Rightarrow> string) \<Rightarrow> transaction list \<Rightarrow> string" where
  "csvContent toLocaleDateString numberToString ts =
     join [CHR 0x0A]
       (join '','' headers
        # map (\<lambda>row. join '','' row) (csvData toLocaleDateString numberToString ts))"

text \<open>
  What \<^verbatim>\<open>exportToCSV\<close> hands to the browser: the text of the blob, its type and the
  name of the download. \<open>nowISO\<close> is \<^verbatim>\<open>new Date().toISOString()\<close>, of which the
  part before the first \<^verbatim>\<open>T\<close> goes into the name.
\<close>

record download =
  dl_content :: string
  dl_type :: string
  dl_name :: string

definition exportToCSV ::
  "(timestamp \<Rightarrow> string) \<Rightarrow> (real \<Rightarrow> string) \<Rightarrow> string \<Rightarrow> transaction list
     \<Rightarrow> download option" where
  "exportToCSV toLocaleDateString numberToString nowISO ts =
     (if length ts = 0 then None
      else Some \<lparr>dl_content = csvContent toLocaleDateString numberToString ts,
                 dl_type = ''text/csv;charset=utf-8;'',
                 dl_name = ''ledger-lite-export-''
                   @ takeWhile (\<lambda>c. c \<noteq> CHR ''T'') nowISO @ ''.csv''\<rparr>)"

text \<open>
  The table the specification describes: the header line, then for each transaction
  in input order a line break and its five fields separated by commas, each field
  written as it is.
\<close>

definition csv_row_spec ::
  "(timestamp \<Rightarrow> string) \<Rightarrow> (real \<Rightarrow> string) \<Rightarrow> transaction \<Rightarrow> string" where
  "csv_row_spec toLocaleDateString numberToString t =
     toLocaleDateString (t_date t) @ '','' @ t_description t @ '','' @ t_category t
       @ '','' @ type_string (t_type t) @ '','' @ numberToString (t_amount t)"

definition csv_spec ::
  "(timestamp \<Rightarrow> string) \<Rightarrow> (real \<Rightarrow> string) \<Rightarrow> transaction list \<Rightarrow> string" where
  "csv_spec toLocaleDateString numberToString ts =
     ''Date,Description,Category,Type,Amount''
       @ concat (map (\<lambda>t. CHR 0x0A # csv_row_spec toLocaleDateString numberToString t) ts)"

subsection \<open>Handlers\<close>

text \<open>
  Each handler awaits one call to the store and then updates the state it was
  created with. The call is a parameter: a function from the request to the store's
  answer. \<^verbatim>\<open>parseFloat\<close> and the clock (\<open>now\<close> for \<^verbatim>\<open>new Date()\<close>) are parameters
  too. Writing to the console and the \<^verbatim>\<open>alert\<close> of \<^verbatim>\<open>addGoal\<close> leave the state as
  it is and are not modelled; a \<^verbatim>\<open>throw\<close> inside \<^verbatim>\<open>try\<close> is the branch that returns
  what the \<^verbatim>\<open>catch\<close> leaves.
\<close>

definition fetchData ::
  "transaction select_response \<Rightarrow> saving_goal select_response \<Rightarrow> app_state \<Rightarrow> app_state" where
  "fetchData transRes goalsRes s =
     (let s1 = s\<lparr>isLoading := True\<rparr> in
      case transRes of
        Failed e \<Rightarrow> s1\<lparr>isLoading := False\<rparr>
      | Succeeded tdata \<Rightarrow>
          (case goalsRes of
             Failed e \<Rightarrow> s1\<lparr>isLoading := False\<rparr>
           | Succeeded gdata \<Rightarrow>
               s1\<lparr>transactions := (case tdata of None \<Rightarrow> [] | Some d \<Rightarrow> d),
                  goals := (case gdata of None \<Rightarrow> [] | Some d \<Rightarrow> d),
                  isLoading := False\<rparr>))"

text \<open>The object \<^verbatim>\<open>newTransaction\<close>: the form's fields, the amount parsed, the date now.\<close>

definition newTransaction :: "(string \<Rightarrow> jsnum) \<Rightarrow> timestamp \<Rightarrow> app_state \<Rightarrow> new_transaction" where
  "newTransaction parseFloat now s =
     \<lparr>nt_description = description s, nt_amount = parseFloat (amount s),
      nt_category = category s, nt_date = now, nt_type = type s\<rparr>"

definition addTransaction ::
  "(string \<Rightarrow> jsnum) \<Rightarrow> (new_transaction \<Rightarrow> transaction insert_response) \<Rightarrow> timestamp
     \<Rightarrow> app_state \<Rightarrow> app_state" where
  "addTransaction parseFloat remote_insert now s =
     (if description s = [] \<or> amount s = [] then s
      else
        case remote_insert (newTransaction parseFloat now s) of
             Failed e \<Rightarrow> s
           | Succeeded None \<Rightarrow> s
           | Succeeded (Some (row, rest)) \<Rightarrow>
               s\<lparr>transactions := row # transactions s, description := [], amount := []\<rparr>)"

definition deleteTransaction ::
  "(string \<Rightarrow> delete_response) \<Rightarrow> string \<Rightarrow> app_state \<Rightarrow> app_state" where
  "deleteTransaction remote_delete i s =
     (case remote_delete i of
        Failed e \<Rightarrow> s
      | Succeeded u \<Rightarrow> s\<lparr>transactions := filter (\<lambda>t. t_id t \<noteq> i) (transactions s)\<rparr>)"

text \<open>The object \<^verbatim>\<open>newGoal\<close>.\<close>

definition newGoal :: "(string \<Rightarrow> jsnum) \<Rightarrow> app_state \<Rightarrow> new_goal" where
  "newGoal parseFloat s =
     \<lparr>ng_name = goalName s, ng_target_amount = parseFloat (goalTarget s)\<rparr>"

definition addGoal ::
  "(string \<Rightarrow> jsnum) \<Rightarrow> (new_goal \<Rightarrow> saving_goal insert_response) \<Rightarrow> app_state \<Rightarrow> app_state" where
  "addGoal parseFloat remote_insert s =
     (if goalName s = [] \<or> goalTarget s = [] then s
      else
        case remote_insert (newGoal parseFloat s) of
             Failed e \<Rightarrow> s
           | Succeeded None \<Rightarrow> s
           | Succeeded (Some (row, rest)) \<Rightarrow>
               s\<lparr>goals := goals s @ [row], goalName := [], goalTarget := []\<rparr>)"

definition deleteGoal ::
  "(string \<Rightarrow> delete_response) \<Rightarrow> string \<Rightarrow> app_state \<Rightarrow> app_state" where
  "deleteGoal remote_delete i s =
     (case remote_delete i of
        Failed e \<Rightarrow> s
      | Succeeded u \<Rightarrow> s\<lparr>goals := filter (\<lambda>g. g_id g \<noteq> i) (goals s)\<rparr>)"

text \<open>
  The orders the two queries of \<^verbatim>\<open>fetchData\<close> ask for:
  \<^verbatim>\<open>order('date', { ascending: false })\<close> and
  \<^verbatim>\<open>order('created_at', { ascending: true })\<close>.
\<close>

definition date_descending :: "transaction list \<Rightarrow> bool" where
  "date_descending ts = sorted_wrt (\<lambda>a b. t_date b \<le> t_date a) ts"

definition created_ascending :: "saving_goal list \<Rightarrow> bool" where
  "created_ascending gs = sorted_wrt (\<lambda>a b. g_created_at a \<le> g_created_at b) gs"

subsection \<open>Example data\<close>

text \<open>
  The two transactions and the goal of the specification's scenarios (with small
  numbers for the instants), a state holding them with both forms filled in, and
  instances of the parameters: a parser for strings of decimal digits, a store that
  accepts every call, and one that is out of reach.
\<close>

definition coffee :: transaction where
  "coffee = \<lparr>t_id = ''t1'', t_description = ''Coffee'', t_amount = 50,
             t_category = ''Food'', t_date = 1000, t_type = Expense, t_created_at = 1000\<rparr>"

definition salary :: transaction where
  "salary = \<lparr>t_id = ''t2'', t_description = ''Salary'', t_amount = 1000,
             t_category = ''Salary'', t_date = 2000, t_type = Income, t_created_at = 2000\<rparr>"

definition car_goal :: saving_goal where
  "car_goal = \<lparr>g_id = ''g1'', g_name = ''Car'', g_target_amount = 1000, g_created_at = 1500\<rparr>"

definition example_state :: app_state where
  "example_state =
     \<lparr>transactions = [salary, coffee], goals = [car_goal], isLoading = False,
      description = ''Tea'', amount = ''20'', category = ''Food'', type = Expense,
      goalName = ''Bike'', goalTarget = ''300'', searchTerm = []\<rparr>"

definition digit_value :: "char \<Rightarrow> nat option" where
  "digit_value c = map_of (zip ''0123456789'' [0, 1, 2, 3, 4, 5, 6, 7, 8, 9]) c"

text \<open>\<^verbatim>\<open>parseFloat\<close> on a string of decimal digits; \<^verbatim>\<open>NaN\<close> on anything else.\<close>

definition parse_digits :: "string \<Rightarrow> jsnum" where
  "parse_digits str =
     (if str \<noteq> [] \<and> list_all (\<lambda>c. digit_value c \<noteq> None) str
      then Finite (of_nat (foldl (\<lambda>n c. 10 * n + (case digit_value c of Some d \<Rightarrow> d | None \<Rightarrow> 0))
                             0 str))
      else NaN)"

text \<open>
  A store that accepts an insert with a finite amount, names the row and stamps it,
  and returns the fields it was sent.
\<close>

definition accept_transaction ::
  "string \<Rightarrow> timestamp \<Rightarrow> new_transaction \<Rightarrow> transaction insert_response" where
  "accept_transaction new_id stamp req =
     (case nt_amount req of
        Finite a \<Rightarrow>
          Succeeded (Some (\<lparr>t_id = new_id, t_description = nt_description req, t_amount = a,
                             t_category = nt_category req, t_date = nt_date req,
                             t_type = nt_type req, t_created_at = stamp\<rparr>, []))
      | _ \<Rightarrow> Failed ''null value in column amount'')"

definition accept_goal ::
  "string \<Rightarrow> timestamp \<Rightarrow> new_goal \<Rightarrow> saving_goal insert_response" where
  "accept_goal new_id stamp req =
     (case ng_target_amount req of
        Finite a \<Rightarrow>
          Succeeded (Some (\<lparr>g_id = new_id, g_name = ng_name req, g_target_amount = a,
                             g_created_at = stamp\<rparr>, []))
      | _ \<Rightarrow> Failed ''null value in column target_amount'')"

definition accept_delete :: "string \<Rightarrow> delete_response" where
  "accept_delete i = Succeeded ()"

definition offline :: "'req \<Rightarrow> 'a response" where
  "offline req = Failed ''Failed to fetch''"




text \<open>
  Instances of the two conversions \<^verbatim>\<open>exportToCSV\<close> takes from the platform, on the
  values of the example. The instants 1000 and 2000 stand for 31 January and
  1 February 2024, printed as an \<^verbatim>\<open>en-US\<close> locale prints dates.
\<close>

definition example_date_string :: "timestamp \<Rightarrow> string" where
  "example_date_string d = (if d = 2000 then ''2/1/2024'' else ''1/31/2024'')"

definition example_number_string :: "real \<Rightarrow> string" where
  "example_number_string a = (if a = 1000 then ''1000'' else ''50'')"

section \<open>Properties\<close>

subsection \<open>Aggregation\<close>








subsection \<open>Goal progress\<close>

lemma progress_positive_target:
  "0 < g_target_amount goal \<Longrightarrow>
   progress bal goal = Finite (min (bal / g_target_amount goal * 100) 100)"
  by (simp add: progress_def min_def)

lemma progress_width_Finite:
  "progress bal goal = Finite r \<Longrightarrow> progress_width bal goal = Finite (max 0 r)"
  by (simp add: progress_width_def max_def)

lemma isAchieved_Finite:
  "progress bal goal = Finite r \<Longrightarrow> isAchieved bal goal \<longleftrightarrow> 100 \<le> r"
  by (auto simp add: isAchieved_def)

text \<open>
  Claim C2. For a goal with a positive target and any balance, the progress is a
  finite number: \<^verbatim>\<open>progress\<close> is capped at 100 where it is computed, and what the
  bar's width receives, where a negative value is replaced by 0, lies between 0 and
  100 inclusive.
\<close>

theorem progress_width_range:
  assumes "0 < g_target_amount goal"
  shows "\<exists>p w. progress bal goal = Finite p \<and> p \<le> 100
           \<and> progress_width bal goal = Finite w \<and> 0 \<le> w \<and> w \<le> 100"
proof -
  define r where "r = min (bal / g_target_amount goal * 100) 100"
  have p: "progress bal goal = Finite r"
    using assms by (simp only: r_def progress_positive_target)
  then have "progress_width bal goal = Finite (max 0 r)"
    by (rule progress_width_Finite)
  moreover have "r \<le> 100" and "0 \<le> max 0 r" and "max 0 r \<le> 100"
    by (simp_all add: r_def)
  ultimately show ?thesis using p by blast
qed

theorem progress_width_range_witness:
  "0 < g_target_amount car_goal
   \<and> progress (- 500) car_goal = Finite (- 50)
   \<and> progress_width (- 500) car_goal = Finite 0
   \<and> progress_width 950 car_goal = Finite 95
   \<and> progress_width 1200 car_goal = Finite 100"
  using progress_width_range [of car_goal "- 500"] progress_width_range [of car_goal 1200]
  by (simp add: car_goal_def progress_width_def progress_def)

text \<open>
  Claim C6. For a goal with a positive target and any balance, the goal is marked
  achieved exactly when the balance is at least the target.
\<close>

theorem isAchieved_iff:
  assumes "0 < g_target_amount goal"
  shows "isAchieved bal goal \<longleftrightarrow> g_target_amount goal \<le> bal"
proof -
  define q where "q = bal / g_target_amount goal"
  have "progress bal goal = Finite (min (q * 100) 100)"
    using assms by (simp only: q_def progress_positive_target)
  then have "isAchieved bal goal \<longleftrightarrow> 100 \<le> min (q * 100) 100"
    by (rule isAchieved_Finite)
  also have "\<dots> \<longleftrightarrow> 1 \<le> q"
    by auto
  also have "\<dots> \<longleftrightarrow> g_target_amount goal \<le> bal"
    using assms by (simp add: q_def pos_le_divide_eq)
  finally show ?thesis .
qed


theorem isAchieved_iff_witness:
  "0 < g_target_amount car_goal
   \<and> \<not> isAchieved 950 car_goal \<and> isAchieved 1000 car_goal \<and> isAchieved 1200 car_goal"
  using isAchieved_iff [of car_goal 950] isAchieved_iff [of car_goal 1000]
    isAchieved_iff [of car_goal 1200]
  by (simp add: car_goal_def)

lemma progress_zero_target:
  "g_target_amount goal = 0 \<Longrightarrow>
   progress bal goal = (if bal = 0 then NaN else if 0 < bal then Finite 100 else NegInfinity)"
  by (simp add: progress_def)

text \<open>
  Claim C8. Nothing keeps a zero target from the division. \<^verbatim>\<open>addGoal\<close> turns away
  only empty strings: with a name and the target string \<^verbatim>\<open>0\<close>, parsed to 0 and
  accepted by the store, the goal with target 0 joins the list; and \<^verbatim>\<open>progress\<close>
  then divides the balance by 0, giving \<^verbatim>\<open>NaN\<close> for a zero balance, 100 (from
  \<^verbatim>\<open>Infinity\<close>) for a positive one and \<^verbatim>\<open>-Infinity\<close> for a negative one.
\<close>

theorem zero_target_reaches_division:
  assumes "parseFloat ''0'' = Finite 0"
    and "goalName s \<noteq> []"
    and "goalTarget s = ''0''"
    and "remote_insert \<lparr>ng_name = goalName s, ng_target_amount = Finite 0\<rparr>
           = Succeeded (Some (row, rest))"
    and "g_target_amount row = 0"
  shows "goals (addGoal parseFloat remote_insert s) = goals s @ [row]
     \<and> progress bal row
         = js_min (js_mul (js_div (Finite bal) (Finite 0)) (Finite 100)) (Finite 100)
     \<and> progress bal row
         = (if bal = 0 then NaN else if 0 < bal then Finite 100 else NegInfinity)"
proof -
  have "newGoal parseFloat s = \<lparr>ng_name = goalName s, ng_target_amount = Finite 0\<rparr>"
    using assms(1,3) by (simp add: newGoal_def)
  then have "goals (addGoal parseFloat remote_insert s) = goals s @ [row]"
    using assms(2,3,4) by (simp add: addGoal_def)
  moreover have "progress bal row
      = js_min (js_mul (js_div (Finite bal) (Finite 0)) (Finite 100)) (Finite 100)"
    using assms(5) by (simp only: progress_def)
  moreover note progress_zero_target [OF assms(5), of bal]
  ultimately show ?thesis by simp
qed

theorem zero_target_reaches_division_witness:
  "parse_digits ''0'' = Finite 0
   \<and> goals (addGoal parse_digits (accept_goal ''g2'' 3002)
              (example_state\<lparr>goalTarget := ''0''\<rparr>))
       = [car_goal,
          \<lparr>g_id = ''g2'', g_name = ''Bike'', g_target_amount = 0, g_created_at = 3002\<rparr>]
   \<and> progress 950 \<lparr>g_id = ''g2'', g_name = ''Bike'', g_target_amount = 0, g_created_at = 3002\<rparr>
       = Finite 100
   \<and> isAchieved 950 \<lparr>g_id = ''g2'', g_name = ''Bike'', g_target_amount = 0, g_created_at = 3002\<rparr>
   \<and> progress 0 \<lparr>g_id = ''g2'', g_name = ''Bike'', g_target_amount = 0, g_created_at = 3002\<rparr>
       = NaN
   \<and> progress (- 50) \<lparr>g_id = ''g2'', g_name = ''Bike'', g_target_amount = 0, g_created_at = 3002\<rparr>
       = NegInfinity"
  using zero_target_reaches_division
    [where parseFloat = parse_digits and s = "example_state\<lparr>goalTarget := ''0''\<rparr>"
       and remote_insert = "accept_goal ''g2'' 3002"
       and row = "\<lparr>g_id = ''g2'', g_name = ''Bike'', g_target_amount = 0, g_created_at = 3002\<rparr>"
       and rest = "[]" and bal = 950]
    zero_target_reaches_division
    [where parseFloat = parse_digits and s = "example_state\<lparr>goalTarget := ''0''\<rparr>"
       and remote_insert = "accept_goal ''g2'' 3002"
       and row = "\<lparr>g_id = ''g2'', g_name = ''Bike'', g_target_amount = 0, g_created_at = 3002\<rparr>"
       and rest = "[]" and bal = 0]
    zero_target_reaches_division
    [where parseFloat = parse_digits and s = "example_state\<lparr>goalTarget := ''0''\<rparr>"
       and remote_insert = "accept_goal ''g2'' 3002"
       and row = "\<lparr>g_id = ''g2'', g_name = ''Bike'', g_target_amount = 0, g_created_at = 3002\<rparr>"
       and rest = "[]" and bal = "- 50"]
  by (simp add: example_state_def accept_goal_def parse_digits_def digit_value_def
      isAchieved_def)

subsection \<open>Handlers\<close>

lemma addTransaction_Failed:
  "remote_insert (newTransaction parseFloat now s) = Failed e \<Longrightarrow>
   addTransaction parseFloat remote_insert now s = s"
  by (simp add: addTransaction_def)

lemma addGoal_Failed:
  "remote_insert (newGoal parseFloat s) = Failed e \<Longrightarrow>
   addGoal parseFloat remote_insert s = s"
  by (simp add: addGoal_def)

lemma deleteTransaction_Failed:
  "remote_delete i = Failed e \<Longrightarrow> deleteTransaction remote_delete i s = s"
  by (simp add: deleteTransaction_def)

lemma deleteGoal_Failed:
  "remote_delete i = Failed e \<Longrightarrow> deleteGoal remote_delete i s = s"
  by (simp add: deleteGoal_def)

text \<open>
  Claim C5. For each of the four remote mutations (insert transaction, delete
  transaction, insert goal, delete goal): when the store's answer carries an error, the
  handler returns the state it started from, so the transaction list and the goal list
  are unchanged; the local update happens only on the branch where the call succeeded.
\<close>

theorem failed_call_leaves_state:
  "(txn_insert (newTransaction parseFloat now s) = Failed e
      \<longrightarrow> addTransaction parseFloat txn_insert now s = s)
   \<and> (remote_delete i = Failed e \<longrightarrow> deleteTransaction remote_delete i s = s)
   \<and> (goal_insert (newGoal parseFloat s) = Failed e
      \<longrightarrow> addGoal parseFloat goal_insert s = s)
   \<and> (remote_delete i = Failed e \<longrightarrow> deleteGoal remote_delete i s = s)"
  by (simp add: addTransaction_Failed addGoal_Failed deleteTransaction_Failed
      deleteGoal_Failed)

theorem failed_call_leaves_state_witness:
  "description example_state \<noteq> [] \<and> amount example_state \<noteq> []
   \<and> goalName example_state \<noteq> [] \<and> goalTarget example_state \<noteq> []
   \<and> addTransaction parse_digits offline 3000 example_state = example_state
   \<and> deleteTransaction offline ''t1'' example_state = example_state
   \<and> addGoal parse_digits offline example_state = example_state
   \<and> deleteGoal offline ''t1'' example_state = example_state"
  using failed_call_leaves_state
    [of offline parse_digits 3000 example_state "''Failed to fetch''" offline "''t1''" offline]
  by (simp add: offline_def example_state_def)

text \<open>
  Claim C9. Deleting an id that no transaction of the local list carries leaves the
  state as it is, whatever the store answers: on success the filter removes nothing,
  on failure no update is applied. The handler has no outcome other than a state.
\<close>

theorem delete_absent_id:
  assumes "i \<notin> t_id ` set (transactions s)"
  shows "deleteTransaction remote_delete i s = s"
proof (cases "remote_delete i")
  case (Failed e)
  then show ?thesis by (rule deleteTransaction_Failed)
next
  case (Succeeded u)
  have "filter (\<lambda>t. t_id t \<noteq> i) (transactions s) = transactions s"
    using assms by (auto simp add: filter_id_conv)
  with Succeeded show ?thesis by (simp add: deleteTransaction_def)
qed

theorem delete_absent_id_witness:
  "''t9'' \<notin> t_id ` set (transactions example_state)
   \<and> deleteTransaction accept_delete ''t9'' example_state = example_state
   \<and> deleteTransaction offline ''t9'' example_state = example_state"
  using delete_absent_id [of "''t9''" example_state accept_delete]
    delete_absent_id [of "''t9''" example_state offline]
  by (simp add: example_state_def coffee_def salary_def)

text \<open>
  Claim C10. \<^verbatim>\<open>addTransaction\<close> never touches the category and type selections. It
  leaves the description and amount fields as they are when the form is rejected (one
  of them empty) and when the insert fails, empties both when the insert succeeds, and
  changes them in no other case.
\<close>

theorem addTransaction_form_fields:
  "category (addTransaction parseFloat remote_insert now s) = category s
   \<and> type (addTransaction parseFloat remote_insert now s) = type s
   \<and> (description s = [] \<or> amount s = []
        \<longrightarrow> addTransaction parseFloat remote_insert now s = s)
   \<and> (remote_insert (newTransaction parseFloat now s) = Failed e
        \<longrightarrow> description (addTransaction parseFloat remote_insert now s) = description s
          \<and> amount (addTransaction parseFloat remote_insert now s) = amount s)
   \<and> (description s \<noteq> [] \<and> amount s \<noteq> []
        \<and> remote_insert (newTransaction parseFloat now s) = Succeeded (Some (row, rest))
        \<longrightarrow> description (addTransaction parseFloat remote_insert now s) = []
          \<and> amount (addTransaction parseFloat remote_insert now s) = [])
   \<and> (description (addTransaction parseFloat remote_insert now s) \<noteq> description s
        \<or> amount (addTransaction parseFloat remote_insert now s) \<noteq> amount s
        \<longrightarrow> (\<exists>r rs. remote_insert (newTransaction parseFloat now s) = Succeeded (Some (r, rs))))"
  by (auto simp add: addTransaction_def split: response.splits option.splits)


theorem addTransaction_form_fields_witness:
  "description (addTransaction parse_digits (accept_transaction ''t3'' 3001) 3000 example_state) = []
   \<and> amount (addTransaction parse_digits (accept_transaction ''t3'' 3001) 3000 example_state) = []
   \<and> category (addTransaction parse_digits (accept_transaction ''t3'' 3001) 3000 example_state)
       = ''Food''
   \<and> type (addTransaction parse_digits (accept_transaction ''t3'' 3001) 3000 example_state)
       = Expense
   \<and> description (addTransaction parse_digits offline 3000 example_state) = ''Tea''
   \<and> amount (addTransaction parse_digits offline 3000 example_state) = ''20''
   \<and> addTransaction parse_digits (accept_transaction ''t3'' 3001) 3000
         (example_state\<lparr>amount := []\<rparr>) = example_state\<lparr>amount := []\<rparr>"
  using addTransaction_form_fields
    [where parseFloat = parse_digits and remote_insert = "accept_transaction ''t3'' 3001"
       and now = 3000 and s = example_state
       and row = "\<lparr>t_id = ''t3'', t_description = ''Tea'', t_amount = 20, t_category = ''Food'',
          t_date = 3000, t_type = Expense, t_created_at = 3001\<rparr>" and rest = "[]"]
    addTransaction_form_fields
    [where parseFloat = parse_digits and remote_insert = offline and now = 3000
       and s = example_state and e = "''Failed to fetch''"]
    addTransaction_form_fields
    [where parseFloat = parse_digits and remote_insert = "accept_transaction ''t3'' 3001"
       and now = 3000 and s = "example_state\<lparr>amount := []\<rparr>"]
  by (simp add: example_state_def offline_def accept_transaction_def newTransaction_def
      parse_digits_def digit_value_def)

subsection \<open>Ordering\<close>

lemma date_descending_filter:
  "date_descending ts \<Longrightarrow> date_descending (filter P ts)"
  unfolding date_descending_def by (rule sorted_wrt_filter)

lemma created_ascending_filter:
  "created_ascending gs \<Longrightarrow> created_ascending (filter P gs)"
  unfolding created_ascending_def by (rule sorted_wrt_filter)

lemma date_descending_Cons:
  "date_descending (row # ts) \<longleftrightarrow> (\<forall>t\<in>set ts. t_date t \<le> t_date row) \<and> date_descending ts"
  by (simp add: date_descending_def)

lemma created_ascending_snoc:
  "created_ascending (gs @ [row]) \<longleftrightarrow>
     created_ascending gs \<and> (\<forall>g\<in>set gs. g_created_at g \<le> g_created_at row)"
  by (simp add: created_ascending_def sorted_wrt_append)

lemma fetchData_ordered:
  assumes "date_descending (transactions s)" and "created_ascending (goals s)"
    and "\<And>d. transRes = Succeeded (Some d) \<Longrightarrow> date_descending d"
    and "\<And>d. goalsRes = Succeeded (Some d) \<Longrightarrow> created_ascending d"
  shows "date_descending (transactions (fetchData transRes goalsRes s))
     \<and> created_ascending (goals (fetchData transRes goalsRes s))"
proof (cases transRes)
  case (Failed e)
  with assms(1,2) show ?thesis by (simp add: fetchData_def)
next
  case tr: (Succeeded tdata)
  show ?thesis
  proof (cases goalsRes)
    case (Failed e)
    with tr assms(1,2) show ?thesis by (simp add: fetchData_def)
  next
    case gr: (Succeeded gdata)
    have "date_descending (case tdata of None \<Rightarrow> [] | Some d \<Rightarrow> d)"
      using assms(3) tr by (cases tdata) (simp_all add: date_descending_def)
    moreover have "created_ascending (case gdata of None \<Rightarrow> [] | Some d \<Rightarrow> d)"
      using assms(4) gr by (cases gdata) (simp_all add: created_ascending_def)
    ultimately show ?thesis
      using tr gr by (simp add: fetchData_def)
  qed
qed

lemma addTransaction_ordered:
  assumes "date_descending (transactions s)" and "created_ascending (goals s)"
    and "\<And>row rest. remote_insert (newTransaction parseFloat now s) = Succeeded (Some (row, rest))
           \<Longrightarrow> t_date row = now"
    and "\<forall>t\<in>set (transactions s). t_date t \<le> now"
  shows "date_descending (transactions (addTransaction parseFloat remote_insert now s))
     \<and> created_ascending (goals (addTransaction parseFloat remote_insert now s))"
  using assms
  by (auto simp add: addTransaction_def date_descending_Cons
      split: response.splits option.splits)

lemma addGoal_ordered:
  assumes "date_descending (transactions s)" and "created_ascending (goals s)"
    and "\<And>row rest. remote_insert (newGoal parseFloat s) = Succeeded (Some (row, rest))
           \<Longrightarrow> \<forall>g\<in>set (goals s). g_created_at g \<le> g_created_at row"
  shows "date_descending (transactions (addGoal parseFloat remote_insert s))
     \<and> created_ascending (goals (addGoal parseFloat remote_insert s))"
  using assms
  by (auto simp add: addGoal_def created_ascending_snoc
      split: response.splits option.splits)

lemma delete_ordered:
  assumes "date_descending (transactions s)" and "created_ascending (goals s)"
  shows "date_descending (transactions (deleteTransaction remote_delete i s))
     \<and> created_ascending (goals (deleteTransaction remote_delete i s))
     \<and> date_descending (transactions (deleteGoal remote_delete i s))
     \<and> created_ascending (goals (deleteGoal remote_delete i s))"
  using assms
  by (auto simp add: deleteTransaction_def deleteGoal_def date_descending_filter
      created_ascending_filter split: response.splits)

text \<open>
  Claim C7. Starting from a transaction list in descending date order and a goal list in
  ascending creation order, both orders hold again after a fetch (whose answers come in
  the orders the queries ask for) and after either deletion. They hold after adding a
  transaction, which is put at the front, provided the returned row carries the date
  sent, the current time, and no transaction of the list is dated later than that; and
  after adding a goal, which is put at the end, provided it is created no earlier than
  the goals of the list. The handlers neither check these provisos nor sort.
\<close>

theorem ordering_preserved:
  assumes "date_descending (transactions s)" and "created_ascending (goals s)"
  shows
    "((\<forall>d. transRes = Succeeded (Some d) \<longrightarrow> date_descending d)
        \<and> (\<forall>d. goalsRes = Succeeded (Some d) \<longrightarrow> created_ascending d)
      \<longrightarrow> date_descending (transactions (fetchData transRes goalsRes s))
        \<and> created_ascending (goals (fetchData transRes goalsRes s)))
   \<and> ((\<forall>row rest. txn_insert (newTransaction parseFloat now s) = Succeeded (Some (row, rest))
            \<longrightarrow> t_date row = now)
        \<and> (\<forall>t\<in>set (transactions s). t_date t \<le> now)
      \<longrightarrow> date_descending (transactions (addTransaction parseFloat txn_insert now s))
        \<and> created_ascending (goals (addTransaction parseFloat txn_insert now s)))
   \<and> ((\<forall>row rest. goal_insert (newGoal parseFloat s) = Succeeded (Some (row, rest))
            \<longrightarrow> (\<forall>g\<in>set (goals s). g_created_at g \<le> g_created_at row))
      \<longrightarrow> date_descending (transactions (addGoal parseFloat goal_insert s))
        \<and> created_ascending (goals (addGoal parseFloat goal_insert s)))
   \<and> date_descending (transactions (deleteTransaction remote_delete i s))
   \<and> created_ascending (goals (deleteTransaction remote_delete i s))
   \<and> date_descending (transactions (deleteGoal remote_delete i s))
   \<and> created_ascending (goals (deleteGoal remote_delete i s))"
proof -
  note fetchData_ordered [OF assms, of transRes goalsRes]
    addTransaction_ordered [OF assms, of txn_insert parseFloat now]
    addGoal_ordered [OF assms, of goal_insert parseFloat]
    delete_ordered [OF assms, of remote_delete i]
  then show ?thesis by blast
qed


theorem ordering_preserved_witness:
  "date_descending (transactions example_state) \<and> created_ascending (goals example_state)
   \<and> transactions (fetchData (Succeeded (Some [salary, coffee])) (Succeeded (Some [car_goal]))
         example_state) = [salary, coffee]
   \<and> date_descending (transactions
         (fetchData (Succeeded (Some [salary, coffee])) (Succeeded (Some [car_goal]))
            example_state))
   \<and> length (transactions
         (addTransaction parse_digits (accept_transaction ''t3'' 3001) 3000 example_state)) = 3
   \<and> date_descending (transactions
         (addTransaction parse_digits (accept_transaction ''t3'' 3001) 3000 example_state))
   \<and> length (goals (addGoal parse_digits (accept_goal ''g2'' 3002) example_state)) = 2
   \<and> created_ascending (goals (addGoal parse_digits (accept_goal ''g2'' 3002) example_state))
   \<and> transactions (deleteTransaction accept_delete ''t2'' example_state) = [coffee]
   \<and> date_descending (transactions (deleteTransaction accept_delete ''t2'' example_state))"
  using ordering_preserved
    [where s = example_state and transRes = "Succeeded (Some [salary, coffee])"
       and goalsRes = "Succeeded (Some [car_goal])" and parseFloat = parse_digits
       and txn_insert = "accept_transaction ''t3'' 3001" and now = 3000
       and goal_insert = "accept_goal ''g2'' 3002" and remote_delete = accept_delete
       and i = "''t2''"]
  by (simp add: example_state_def salary_def coffee_def car_goal_def date_descending_def
      created_ascending_def fetchData_def addTransaction_def addGoal_def deleteTransaction_def
      deleteGoal_def newTransaction_def newGoal_def accept_transaction_def accept_goal_def
      accept_delete_def parse_digits_def digit_value_def)


text \<open>
  Without the provisos the orders are not kept. With the clock at 1500, earlier than
  the date 2000 at the head of the list, the new transaction lands in front of a later
  one; and a goal stamped 1200 lands behind the goal created at 1500.
\<close>

theorem ordering_preserved_counterexample:
  "date_descending (transactions example_state)
   \<and> created_ascending (goals example_state)
   \<and> map t_date (transactions
         (addTransaction parse_digits (accept_transaction ''t3'' 1501) 1500 example_state))
       = [1500, 2000, 1000]
   \<and> \<not> date_descending (transactions
         (addTransaction parse_digits (accept_transaction ''t3'' 1501) 1500 example_state))
   \<and> map g_created_at (goals (addGoal parse_digits (accept_goal ''g2'' 1200) example_state))
       = [1500, 1200]
   \<and> \<not> created_ascending (goals (addGoal parse_digits (accept_goal ''g2'' 1200) example_state))"
  by (simp add: example_state_def salary_def coffee_def car_goal_def date_descending_def
      created_ascending_def addTransaction_def addGoal_def newTransaction_def newGoal_def
      accept_transaction_def accept_goal_def parse_digits_def digit_value_def)

subsection \<open>Search filter\<close>






subsection \<open>CSV export\<close>

lemma join_Cons: "join sep (x # xs) = x @ concat (map (\<lambda>y. sep @ y) xs)"
  by (induction xs arbitrary: x) simp_all

lemma join_headers: "join '','' headers = ''Date,Description,Category,Type,Amount''"
  by (simp add: headers_def)

lemma csvContent_csv_spec:
  "csvContent toLocaleDateString numberToString ts
     = csv_spec toLocaleDateString numberToString ts"
  by (simp add: csvContent_def csvData_def csv_spec_def csv_row_spec_def join_Cons
      join_headers comp_def)

text \<open>
  Claim C3. On an empty list \<^verbatim>\<open>exportToCSV\<close> offers no download, and the text the
  serialising expression yields for it is the header line alone. On a non-empty list
  the download's text is the header line followed, for each transaction in input order,
  by a line break and the fields date, description, category, type and amount joined
  by commas, each field written as it is (nothing is quoted or escaped).
\<close>

theorem exportToCSV_spec:
  "exportToCSV toLocaleDateString numberToString nowISO [] = None
   \<and> csvContent toLocaleDateString numberToString [] = ''Date,Description,Category,Type,Amount''
   \<and> (ts \<noteq> [] \<longrightarrow>
        map_option dl_content (exportToCSV toLocaleDateString numberToString nowISO ts)
          = Some (csv_spec toLocaleDateString numberToString ts))
   \<and> csvContent toLocaleDateString numberToString ts
        = csv_spec toLocaleDateString numberToString ts"
  by (simp add: exportToCSV_def csvContent_csv_spec csv_spec_def)

theorem exportToCSV_spec_witness:
  "[salary, coffee\<lparr>t_description := ''Coffee, black''\<rparr>] \<noteq> []
   \<and> exportToCSV example_date_string example_number_string ''2024-02-03T08:15:00.000Z''
        [salary, coffee\<lparr>t_description := ''Coffee, black''\<rparr>]
      = Some \<lparr>dl_content =
                 ''Date,Description,Category,Type,Amount''
                 @ CHR 0x0A # ''2/1/2024,Salary,Salary,income,1000''
                 @ CHR 0x0A # ''1/31/2024,Coffee, black,Food,expense,50'',
               dl_type = ''text/csv;charset=utf-8;'',
               dl_name = ''ledger-lite-export-2024-02-03.csv''\<rparr>"
  using exportToCSV_spec
    [where ts = "[salary, coffee\<lparr>t_description := ''Coffee, black''\<rparr>]"
       and toLocaleDateString = example_date_string
       and numberToString = example_number_string
       and nowISO = "''2024-02-03T08:15:00.000Z''"]
  by (simp add: exportToCSV_def csv_spec_def csv_row_spec_def salary_def coffee_def
      example_date_string_def example_number_string_def)


end
